theory Spec2Isabelle
  imports Main "HOL-Library.Word"
begin

unbundle bit_operations_syntax

section \<open>The frame codec: types and constants used by 6\_5.go\<close>

text \<open>
  The file under verification, \<^verbatim>\<open>6_5.go\<close>, registers the test cases of section 6.5 (SETTINGS)
  and 6.5.2 (Defined SETTINGS Parameters). It uses the frame codec \<^verbatim>\<open>http2\<close> through a handful
  of types and constants: a frame type and a flags octet are \<^verbatim>\<open>uint8\<close>, an error code is
  \<^verbatim>\<open>uint32\<close>, a setting identifier is \<^verbatim>\<open>uint16\<close>. The constants carry the values of the
  protocol's registry.
\<close>

type_synonym octet = "8 word"
type_synonym FrameType = "8 word"
type_synonym Flags = "8 word"
type_synonym ErrCode = "32 word"
type_synonym SettingID = "16 word"

definition FrameSettings :: FrameType where
  "FrameSettings = 0x4"

definition FrameGoAway :: FrameType where
  "FrameGoAway = 0x7"

definition FlagSettingsAck :: Flags where
  "FlagSettingsAck = 0x1"

definition ErrCodeProtocol :: ErrCode where
  "ErrCodeProtocol = 0x1"

definition ErrCodeFlowControl :: ErrCode where
  "ErrCodeFlowControl = 0x3"

definition ErrCodeFrameSize :: ErrCode where
  "ErrCodeFrameSize = 0x6"

definition SettingMaxConcurrentStreams :: SettingID where
  "SettingMaxConcurrentStreams = 0x3"

text \<open>\<^verbatim>\<open>http2.FrameHeader\<close>: the fields every frame reports through \<^verbatim>\<open>Header()\<close>.\<close>

datatype FrameHeader =
  FrameHeader (Type: FrameType) (Flags: Flags) (Length: "32 word") (StreamID: "32 word")

text \<open>\<^verbatim>\<open>func (f Flags) Has(v Flags) bool { return (f & v) == v }\<close>\<close>

definition Has :: "Flags \<Rightarrow> Flags \<Rightarrow> bool" where
  "Has f v = (f AND v = v)"

text \<open>
  \<^verbatim>\<open>http2.Frame\<close> is an interface; the read loop of the first case only distinguishes
  \<^verbatim>\<open>*http2.SettingsFrame\<close> from every other implementation (the \<^verbatim>\<open>default\<close> branch of its
  type switch), and only reads the header. Among the other implementations,
  \<^verbatim>\<open>*http2.GoAwayFrame\<close> is the frame by which a peer ends the connection; it carries an
  error code, which the verification helper looks at.
\<close>

datatype Frame =
    SettingsFrame FrameHeader
  | GoAwayFrame FrameHeader ErrCode
  | OtherFrame FrameHeader

text \<open>\<^verbatim>\<open>Header()\<close> of a frame.\<close>

fun Header :: "Frame \<Rightarrow> FrameHeader" where
  "Header (SettingsFrame h) = h"
| "Header (GoAwayFrame h code) = h"
| "Header (OtherFrame h) = h"

text \<open>\<^verbatim>\<open>func (f *SettingsFrame) IsAck() bool\<close>, on the header of the settings frame.\<close>

definition IsAck :: "FrameHeader \<Rightarrow> bool" where
  "IsAck h = Has (Flags h) FlagSettingsAck"

text \<open>\<^verbatim>\<open>http2.Setting{ID, Val}\<close>\<close>

datatype Setting = Setting (ID: SettingID) (Val: "32 word")

subsection \<open>Wire layout\<close>

text \<open>
  Big-endian encoders and decoders of the codec. A frame header is nine octets: a 24-bit
  length, the type, the flags, and a reserved bit followed by the 31-bit stream identifier.
  A settings body is a sequence of six-octet pairs: a 16-bit identifier and a 32-bit value.
\<close>

definition put_uint16 :: "16 word \<Rightarrow> octet list" where
  "put_uint16 v = [ucast (drop_bit 8 v), ucast v]"

definition put_uint24 :: "32 word \<Rightarrow> octet list" where
  "put_uint24 v = [ucast (drop_bit 16 v), ucast (drop_bit 8 v), ucast v]"

definition put_uint32 :: "32 word \<Rightarrow> octet list" where
  "put_uint32 v = [ucast (drop_bit 24 v), ucast (drop_bit 16 v), ucast (drop_bit 8 v), ucast v]"

definition Uint16 :: "octet list \<Rightarrow> 16 word" where
  "Uint16 b = (push_bit 8 (ucast (b ! 0)) OR ucast (b ! 1))"

definition Uint32 :: "octet list \<Rightarrow> 32 word" where
  "Uint32 b = (push_bit 24 (ucast (b ! 0)) OR push_bit 16 (ucast (b ! 1))
               OR push_bit 8 (ucast (b ! 2)) OR ucast (b ! 3))"

text \<open>
  \<^verbatim>\<open>readFrameHeader\<close> of the codec: how a peer reads the first nine octets of a frame. A
  shorter input is not a header.
\<close>

definition readFrameHeader :: "octet list \<Rightarrow> FrameHeader option" where
  "readFrameHeader buf =
     (if length buf < 9 then None
      else Some (FrameHeader (buf ! 3) (buf ! 4)
                   (push_bit 16 (ucast (buf ! 0)) OR push_bit 8 (ucast (buf ! 1)) OR ucast (buf ! 2))
                   (Uint32 (drop 5 buf) AND 0x7fffffff)))"

text \<open>One pair of a settings body; a body that is not exactly six octets long is not one pair.\<close>

definition parseSetting :: "octet list \<Rightarrow> Setting option" where
  "parseSetting p =
     (if length p \<noteq> 6 then None
      else Some (Setting (Uint16 (take 2 p)) (Uint32 (drop 2 p))))"

section \<open>The harness around 6\_5.go\<close>

text \<open>
  Go's \<^verbatim>\<open>error\<close> values, as far as the read loop tells them apart: the sentinel
  \<^verbatim>\<open>io.EOF\<close>, the harness's sentinel \<^verbatim>\<open>TIMEOUT\<close>, a \<^verbatim>\<open>syscall.Errno\<close>, an
  \<^verbatim>\<open>*os.SyscallError\<close> (the name of the system call and its \<^verbatim>\<open>Err\<close> field), a
  \<^verbatim>\<open>*net.OpError\<close> (with its \<^verbatim>\<open>Err\<close> field), and any other error.

  Modelled from the spec: \<^verbatim>\<open>TIMEOUT\<close> is declared outside \<^verbatim>\<open>6_5.go\<close>; it is the error
  \<^verbatim>\<open>ReadFrame\<close> returns when the timeout elapses before a frame is decoded, a value of its
  own, different from every other error.
\<close>

datatype error =
    EOF
  | TIMEOUT
  | Errno nat
  | SyscallError string error
  | OpError error
  | OtherError string

definition ECONNRESET :: error where
  "ECONNRESET = Errno 104"

text \<open>
  Modelled from the spec: the \<^verbatim>\<open>Result\<close> variants are declared outside \<^verbatim>\<open>6_5.go\<close>. The
  spec's data model gives four: a frame observation (type, flags, error code), a closed
  connection, a timeout, and a transport error carrying the underlying error. The names are
  the constructors \<^verbatim>\<open>6_5.go\<close> builds. A Go variable of interface type \<^verbatim>\<open>Result\<close> may be
  \<^verbatim>\<open>nil\<close>: it is a \<open>Result option\<close>, with \<open>None\<close> for \<^verbatim>\<open>nil\<close>.
\<close>

datatype Result =
    ResultFrame FrameType Flags ErrCode
  | ResultConnectionClose
  | ResultTestTimeout
  | ResultError error

text \<open>
  Modelled from the spec: \<^verbatim>\<open>Context\<close> is declared outside \<^verbatim>\<open>6_5.go\<close>; the cases read its
  \<^verbatim>\<open>Timeout\<close> and hand it on.
\<close>

record Context =
  Timeout :: nat

text \<open>
  Modelled from the spec: \<^verbatim>\<open>Http2Conn\<close> (the connection wrapper) is declared outside
  \<^verbatim>\<open>6_5.go\<close>. It owns a transport connection and a framer bound to it. Its state here is what
  the cases can affect or observe: the octets written to the transport so far (by raw writes
  and by the framer alike), the results the coming calls of \<^verbatim>\<open>ReadFrame\<close> deliver, in order
  (a decoded frame, or an error: \<open>Inl\<close>), and whether the transport has been closed.
\<close>

record Http2Conn =
  sent :: "octet list"
  incoming :: "(error + Frame) list"
  closed :: bool

text \<open>
  Modelled from the spec: \<^verbatim>\<open>ReadFrame(timeout)\<close> blocks until a frame is decoded, the peer
  closes, the timeout elapses or decoding fails, and returns that one outcome. \<open>None\<close> stands
  for a call that has not returned: the connection state lists no further outcome.
\<close>

definition ReadFrame :: "Http2Conn \<Rightarrow> nat \<Rightarrow> ((error + Frame) \<times> Http2Conn) option" where
  "ReadFrame c t =
     (case incoming c of
        [] \<Rightarrow> None
      | r # rs \<Rightarrow> Some (r, c\<lparr>incoming := rs\<rparr>))"

text \<open>
  \<^verbatim>\<open>fmt.Fprintf(http2Conn.conn, format)\<close> with no operands copies a format without a verb
  (without the octet \<^verbatim>\<open>%\<close>, 0x25) to the connection as it is. Every format of \<^verbatim>\<open>6_5.go\<close> is
  such a string (\<open>formats_have_no_verb\<close> below).
\<close>

definition Fprintf :: "Http2Conn \<Rightarrow> octet list \<Rightarrow> Http2Conn" where
  "Fprintf c format = c\<lparr>sent := sent c @ format\<rparr>"

text \<open>\<^verbatim>\<open>http2Conn.fr.WriteSettings(settings...)\<close>: a settings frame on stream 0, no flags.\<close>

definition WriteSettings :: "Http2Conn \<Rightarrow> Setting list \<Rightarrow> Http2Conn" where
  "WriteSettings c settings =
     c\<lparr>sent := sent c
          @ put_uint24 (word_of_nat (6 * length settings)) @ [FrameSettings, 0] @ put_uint32 0
          @ concat (map (\<lambda>s. put_uint16 (ID s) @ put_uint32 (Val s)) settings)\<rparr>"

text \<open>\<^verbatim>\<open>http2Conn.conn.Close()\<close>, deferred by every case to its return.\<close>

definition Close :: "Http2Conn \<Rightarrow> Http2Conn" where
  "Close c = c\<lparr>closed := True\<rparr>"

text \<open>
  What \<^verbatim>\<open>6_5.go\<close> takes from the rest of the repository and the theory takes as parameters:
  the constants \<^verbatim>\<open>FlagDefault\<close> and \<^verbatim>\<open>ErrCodeDefault\<close>, the function \<^verbatim>\<open>CreateHttp2Conn\<close>
  that opens the connection of a case, and the verification helper \<^verbatim>\<open>TestConnectionError\<close>,
  which reads from the connection and returns the expected results and the actual one.
\<close>

record Harness =
  FlagDefault :: Flags
  ErrCodeDefault :: ErrCode
  CreateHttp2Conn :: "Context \<Rightarrow> bool \<Rightarrow> Http2Conn"
  TestConnectionError ::
    "Context \<Rightarrow> Http2Conn \<Rightarrow> ErrCode list \<Rightarrow> (Result list \<times> Result option) \<times> Http2Conn"

section \<open>Section 6.5: SETTINGS\<close>

subsection \<open>Case 1: Sends a SETTINGS frame\<close>

text \<open>
  The labelled loop of the case (lines 28 to 53). It returns the value of \<^verbatim>\<open>actual\<close> at the
  \<^verbatim>\<open>break\<close> and the connection state there; \<open>None\<close> when the loop is still waiting in
  \<^verbatim>\<open>ReadFrame\<close>. The \<^verbatim>\<open>default\<close> branch of the type switch is the same for a
  \<^verbatim>\<open>*GoAwayFrame\<close> and for any other frame.
\<close>

function read_loop ::
  "Harness \<Rightarrow> Context \<Rightarrow> Http2Conn \<Rightarrow> Result option \<Rightarrow> (Result option \<times> Http2Conn) option" where
  "read_loop hs ctx http2Conn actual =
     (case ReadFrame http2Conn (Timeout ctx) of
        None \<Rightarrow> None
      | Some (Inl err, conn') \<Rightarrow>
          Some (if err = EOF \<or> (case err of OpError e \<Rightarrow> e = ECONNRESET | _ \<Rightarrow> False)
                  then Some ResultConnectionClose
                else if err = TIMEOUT
                  then (if actual = None then Some ResultTestTimeout else actual)
                else Some (ResultError err),
                conn')
      | Some (Inr f, conn') \<Rightarrow>
          (case f of
             SettingsFrame h \<Rightarrow>
               if IsAck h
                 then Some (Some (ResultFrame (Type h) (Flags h) (ErrCodeDefault hs)), conn')
               else read_loop hs ctx conn'
                      (Some (ResultFrame (Type h) (Flags h) (ErrCodeDefault hs)))
           | GoAwayFrame h code \<Rightarrow>
               read_loop hs ctx conn'
                 (Some (ResultFrame (Type h) (FlagDefault hs) (ErrCodeDefault hs)))
           | OtherFrame h \<Rightarrow>
               read_loop hs ctx conn'
                 (Some (ResultFrame (Type h) (FlagDefault hs) (ErrCodeDefault hs)))))"
  by pat_completeness auto
termination
  by (relation "measure (\<lambda>(hs, ctx, c, actual). length (incoming c))")
     (auto simp: ReadFrame_def split: list.splits)

declare read_loop.simps [simp del]

text \<open>The behaviour function of the case: its two results, and the connection it leaves.\<close>

definition SendsASettingsFrame ::
  "Harness \<Rightarrow> Context \<Rightarrow> ((Result list \<times> Result option) \<times> Http2Conn) option" where
  "SendsASettingsFrame hs ctx =
     (let expected = [ResultFrame FrameSettings FlagSettingsAck (ErrCodeDefault hs)];
          http2Conn = CreateHttp2Conn hs ctx True;
          settings = Setting SettingMaxConcurrentStreams 100;
          http2Conn = WriteSettings http2Conn [settings]
      in case read_loop hs ctx http2Conn None of
           None \<Rightarrow> None
         | Some (actual, http2Conn) \<Rightarrow> Some ((expected, actual), Close http2Conn))"

text \<open>
  The other cases write a hand-made frame with \<^verbatim>\<open>fmt.Fprintf\<close> and return what the
  verification helper returns for their list of error codes; the deferred \<^verbatim>\<open>Close\<close> runs
  after the helper.
\<close>

subsection \<open>Case 2: Sends a SETTINGS frame that is not a zero-length with ACK flag\<close>

definition SendsSettingsNotZeroLengthWithAck ::
  "Harness \<Rightarrow> Context \<Rightarrow> (Result list \<times> Result option) \<times> Http2Conn" where
  "SendsSettingsNotZeroLengthWithAck hs ctx =
     (let http2Conn = CreateHttp2Conn hs ctx True;
          http2Conn = Fprintf http2Conn [0x00, 0x00, 0x01, 0x04, 0x01, 0x00, 0x00, 0x00, 0x00, 0x00];
          actualCodes = [ErrCodeFrameSize]
      in case TestConnectionError hs ctx http2Conn actualCodes of
           (res, http2Conn) \<Rightarrow> (res, Close http2Conn))"

subsection \<open>Case 3: Sends a SETTINGS frame with the stream identifier that is not 0x0\<close>

definition SendsSettingsStreamIdNot0 ::
  "Harness \<Rightarrow> Context \<Rightarrow> (Result list \<times> Result option) \<times> Http2Conn" where
  "SendsSettingsStreamIdNot0 hs ctx =
     (let http2Conn = CreateHttp2Conn hs ctx True;
          http2Conn = Fprintf http2Conn [0x00, 0x00, 0x06, 0x04, 0x00, 0x00, 0x00, 0x00, 0x03];
          http2Conn = Fprintf http2Conn [0x00, 0x03, 0x00, 0x00, 0x00, 0x64];
          actualCodes = [ErrCodeProtocol]
      in case TestConnectionError hs ctx http2Conn actualCodes of
           (res, http2Conn) \<Rightarrow> (res, Close http2Conn))"

subsection \<open>Case 4: Sends a SETTINGS frame with a length other than a multiple of 6 octets\<close>

definition SendsSettingsLengthNotMultipleOf6 ::
  "Harness \<Rightarrow> Context \<Rightarrow> (Result list \<times> Result option) \<times> Http2Conn" where
  "SendsSettingsLengthNotMultipleOf6 hs ctx =
     (let http2Conn = CreateHttp2Conn hs ctx True;
          http2Conn = Fprintf http2Conn [0x00, 0x00, 0x02, 0x04, 0x00, 0x00, 0x00, 0x00, 0x00];
          http2Conn = Fprintf http2Conn [0x00, 0x00, 0x01];
          actualCodes = [ErrCodeFrameSize]
      in case TestConnectionError hs ctx http2Conn actualCodes of
           (res, http2Conn) \<Rightarrow> (res, Close http2Conn))"

section \<open>Section 6.5.2: Defined SETTINGS Parameters\<close>

subsection \<open>Case 1: SETTINGS\_ENABLE\_PUSH (0x2): Sends the value other than 0 or 1\<close>

definition EnablePushOtherThan0Or1 ::
  "Harness \<Rightarrow> Context \<Rightarrow> (Result list \<times> Result option) \<times> Http2Conn" where
  "EnablePushOtherThan0Or1 hs ctx =
     (let http2Conn = CreateHttp2Conn hs ctx True;
          http2Conn = Fprintf http2Conn [0x00, 0x00, 0x06, 0x04, 0x00, 0x00, 0x00, 0x00, 0x00];
          http2Conn = Fprintf http2Conn [0x00, 0x02, 0x00, 0x00, 0x00, 0x02];
          actualCodes = [ErrCodeProtocol]
      in case TestConnectionError hs ctx http2Conn actualCodes of
           (res, http2Conn) \<Rightarrow> (res, Close http2Conn))"

subsection \<open>Case 2: SETTINGS\_INITIAL\_WINDOW\_SIZE (0x4): Sends the value above the maximum flow control window size\<close>

definition InitialWindowSizeAboveMaximum ::
  "Harness \<Rightarrow> Context \<Rightarrow> (Result list \<times> Result option) \<times> Http2Conn" where
  "InitialWindowSizeAboveMaximum hs ctx =
     (let http2Conn = CreateHttp2Conn hs ctx True;
          http2Conn = Fprintf http2Conn [0x00, 0x00, 0x06, 0x04, 0x00, 0x00, 0x00, 0x00, 0x00];
          http2Conn = Fprintf http2Conn [0x00, 0x04, 0x80, 0x00, 0x00, 0x00];
          actualCodes = [ErrCodeFlowControl]
      in case TestConnectionError hs ctx http2Conn actualCodes of
           (res, http2Conn) \<Rightarrow> (res, Close http2Conn))"

subsection \<open>Case 3: SETTINGS\_MAX\_FRAME\_SIZE (0x5): Sends the value below the initial value\<close>

definition MaxFrameSizeBelowInitial ::
  "Harness \<Rightarrow> Context \<Rightarrow> (Result list \<times> Result option) \<times> Http2Conn" where
  "MaxFrameSizeBelowInitial hs ctx =
     (let http2Conn = CreateHttp2Conn hs ctx True;
          http2Conn = Fprintf http2Conn [0x00, 0x00, 0x06, 0x04, 0x00, 0x00, 0x00, 0x00, 0x00];
          http2Conn = Fprintf http2Conn [0x00, 0x05, 0x00, 0x00, 0x3f, 0xff];
          actualCodes = [ErrCodeProtocol]
      in case TestConnectionError hs ctx http2Conn actualCodes of
           (res, http2Conn) \<Rightarrow> (res, Close http2Conn))"

subsection \<open>Case 4: SETTINGS\_MAX\_FRAME\_SIZE (0x5): Sends the value above the maximum allowed frame size\<close>

definition MaxFrameSizeAboveMaximum ::
  "Harness \<Rightarrow> Context \<Rightarrow> (Result list \<times> Result option) \<times> Http2Conn" where
  "MaxFrameSizeAboveMaximum hs ctx =
     (let http2Conn = CreateHttp2Conn hs ctx True;
          http2Conn = Fprintf http2Conn [0x00, 0x00, 0x06, 0x04, 0x00, 0x00, 0x00, 0x00, 0x00];
          http2Conn = Fprintf http2Conn [0x00, 0x05, 0x01, 0x00, 0x00, 0x00];
          actualCodes = [ErrCodeProtocol]
      in case TestConnectionError hs ctx http2Conn actualCodes of
           (res, http2Conn) \<Rightarrow> (res, Close http2Conn))"

section \<open>The verification helper, as the spec describes it\<close>

text \<open>
  Modelled from the spec: the frame that decides the loop of the helper (spec 4.2, item 1),
  one that ends the connection explicitly and carries one of the acceptable error codes. A
  frame that ends the connection with another code is one of the other frames of item 4.
\<close>

definition decisive :: "ErrCode list \<Rightarrow> Frame \<Rightarrow> bool" where
  "decisive codes f =
     (case f of
        SettingsFrame h \<Rightarrow> False
      | GoAwayFrame h code \<Rightarrow> code \<in> set codes
      | OtherFrame h \<Rightarrow> False)"

text \<open>
  Modelled from the spec: the loop of \<^verbatim>\<open>TestConnectionError\<close>, which is declared outside
  \<^verbatim>\<open>6_5.go\<close>. The spec (4.2) has it call \<^verbatim>\<open>readFrame\<close> repeatedly until one of:
  \<^enum> a frame that ends the connection explicitly arrives, carrying one of the acceptable
    codes: actual is the matching frame observation;
  \<^enum> the transport closes (EOF or reset) before a decisive frame: actual is
    connection-closed;
  \<^enum> the timeout elapses with no decisive event: actual is the timeout variant;
  \<^enum> any other frame arrives: it is not terminal, and the loop goes on unless a maximum
    number of intervening frames is exceeded, which is reported as a mismatched frame
    observation.
  Any other failure of the read is a transport error carrying the error (spec 3). The spec
  gives no number for the maximum: it is the parameter \<open>cap\<close>, and \<open>n\<close> counts the
  intervening frames so far. The defaults \<open>fd\<close> and \<open>ed\<close> fill the fields of an observation
  that an expected result does not constrain. A reset is told as in case 1.
\<close>

function drain_loop ::
  "nat \<Rightarrow> Flags \<Rightarrow> ErrCode \<Rightarrow> Context \<Rightarrow> Http2Conn \<Rightarrow> ErrCode list \<Rightarrow> nat
   \<Rightarrow> (Result option \<times> Http2Conn) option" where
  "drain_loop cap fd ed ctx http2Conn codes n =
     (case ReadFrame http2Conn (Timeout ctx) of
        None \<Rightarrow> None
      | Some (Inl err, conn') \<Rightarrow>
          Some (if err = EOF \<or> err = OpError ECONNRESET then Some ResultConnectionClose
                else if err = TIMEOUT then Some ResultTestTimeout
                else Some (ResultError err),
                conn')
      | Some (Inr f, conn') \<Rightarrow>
          (case f of
             GoAwayFrame h code \<Rightarrow>
               if code \<in> set codes then Some (Some (ResultFrame FrameGoAway fd code), conn')
               else if cap \<le> n then Some (Some (ResultFrame (Type h) fd code), conn')
               else drain_loop cap fd ed ctx conn' codes (Suc n)
           | _ \<Rightarrow>
               if cap \<le> n then Some (Some (ResultFrame (Type (Header f)) fd ed), conn')
               else drain_loop cap fd ed ctx conn' codes (Suc n)))"
  by pat_completeness auto
termination
  by (relation "measure (\<lambda>(cap, fd, ed, ctx, c, codes, n). length (incoming c))")
     (auto simp: ReadFrame_def split: list.splits)

declare drain_loop.simps [simp del]

text \<open>
  Modelled from the spec: \<^verbatim>\<open>TestConnectionError(ctx, http2Conn, codes)\<close>, declared outside
  \<^verbatim>\<open>6_5.go\<close>. Its expected results are the explicit codes and, beside them, the closed
  connection (spec 4.2, item 2); its actual result is the one its loop ends with. \<open>None\<close>
  when the loop has not returned.
\<close>

definition TestConnectionError_spec ::
  "nat \<Rightarrow> Flags \<Rightarrow> ErrCode \<Rightarrow> Context \<Rightarrow> Http2Conn \<Rightarrow> ErrCode list
   \<Rightarrow> ((Result list \<times> Result option) \<times> Http2Conn) option" where
  "TestConnectionError_spec cap fd ed ctx http2Conn codes =
     (let expected = map (\<lambda>code. ResultFrame FrameGoAway fd code) codes @ [ResultConnectionClose]
      in case drain_loop cap fd ed ctx http2Conn codes 0 of
           None \<Rightarrow> None
         | Some (actual, http2Conn) \<Rightarrow> Some ((expected, actual), http2Conn))"

section \<open>Vocabulary of the properties\<close>

text \<open>
  The frame at which the loop of case 1 breaks: a settings frame whose \<^verbatim>\<open>IsAck()\<close> holds.
\<close>

definition ack_settings :: "Frame \<Rightarrow> bool" where
  "ack_settings f =
     (case f of
        SettingsFrame h \<Rightarrow> IsAck h
      | GoAwayFrame h code \<Rightarrow> False
      | OtherFrame h \<Rightarrow> False)"

text \<open>
  The frame observation the loop of case 1 assigns to \<^verbatim>\<open>actual\<close> on receiving a frame
  (lines 46 and 51).
\<close>

definition observe :: "Harness \<Rightarrow> Frame \<Rightarrow> Result" where
  "observe hs f =
     (case f of
        SettingsFrame h \<Rightarrow> ResultFrame (Type h) (Flags h) (ErrCodeDefault hs)
      | GoAwayFrame h code \<Rightarrow> ResultFrame (Type h) (FlagDefault hs) (ErrCodeDefault hs)
      | OtherFrame h \<Rightarrow> ResultFrame (Type h) (FlagDefault hs) (ErrCodeDefault hs))"

text \<open>
  The value of \<^verbatim>\<open>actual\<close> after the frames \<open>fs\<close> have been received, none of them ending
  the loop: the observation of the last one, or the value before when there was none.
\<close>

definition recorded :: "Harness \<Rightarrow> Frame list \<Rightarrow> Result option \<Rightarrow> Result option" where
  "recorded hs fs actual = (if fs = [] then actual else Some (observe hs (last fs)))"

text \<open>
  An outcome of \<^verbatim>\<open>ReadFrame\<close> at which the loop of case 1 breaks: any error, or a settings
  frame with ACK.
\<close>

definition terminal :: "error + Frame \<Rightarrow> bool" where
  "terminal r = (case r of Inl err \<Rightarrow> True | Inr f \<Rightarrow> ack_settings f)"

text \<open>
  What the codec guarantees of a decoded frame: it returns a \<^verbatim>\<open>*SettingsFrame\<close> for a
  header of type SETTINGS, and for no other (a \<^verbatim>\<open>*GoAwayFrame\<close> for a header of type
  GOAWAY).
\<close>

definition codec_frame :: "Frame \<Rightarrow> bool" where
  "codec_frame f =
     (case f of
        SettingsFrame h \<Rightarrow> Type h = FrameSettings
      | GoAwayFrame h code \<Rightarrow> Type h = FrameGoAway
      | OtherFrame h \<Rightarrow> Type h \<noteq> FrameSettings)"

definition codec_outcome :: "error + Frame \<Rightarrow> bool" where
  "codec_outcome r = (case r of Inl err \<Rightarrow> True | Inr f \<Rightarrow> codec_frame f)"

text \<open>The two results of a behaviour function that has returned.\<close>

definition expected_results ::
  "((Result list \<times> Result option) \<times> Http2Conn) option \<Rightarrow> Result list option" where
  "expected_results out = map_option (\<lambda>((expected, actual), c). expected) out"

definition actual_result ::
  "((Result list \<times> Result option) \<times> Http2Conn) option \<Rightarrow> Result option option" where
  "actual_result out = map_option (\<lambda>((expected, actual), c). actual) out"

text \<open>The actual result of a case that returns what the helper returns.\<close>

definition actual_of :: "(Result list \<times> Result option) \<times> Http2Conn \<Rightarrow> Result option" where
  "actual_of out = snd (fst out)"

text \<open>
  The helper of the harness \<open>hs\<close> is the helper of the spec: whatever the modelled helper
  returns with, on a connection and a list of codes, the harness's helper returns.
\<close>

definition helper_as_specified :: "nat \<Rightarrow> Harness \<Rightarrow> Context \<Rightarrow> bool" where
  "helper_as_specified cap hs ctx =
     (\<forall>c codes out.
        TestConnectionError_spec cap (FlagDefault hs) (ErrCodeDefault hs) ctx c codes = Some out
        \<longrightarrow> TestConnectionError hs ctx c codes = out)"

text \<open>The value of \<open>actual\<close> at the break, for each outcome that ends the loop.\<close>

definition final :: "Harness \<Rightarrow> Result option \<Rightarrow> error + Frame \<Rightarrow> Result option" where
  "final hs actual e =
     (case e of
        Inl err \<Rightarrow>
          if err = EOF \<or> err = OpError ECONNRESET then Some ResultConnectionClose
          else if err = TIMEOUT then (if actual = None then Some ResultTestTimeout else actual)
          else Some (ResultError err)
      | Inr f \<Rightarrow> Some (observe hs f))"

text \<open>
  The connection of a case after it has written exactly \<open>octets\<close>, and nothing else, to the
  connection \<^verbatim>\<open>CreateHttp2Conn(ctx, true)\<close> returned.
\<close>

definition wrote :: "Harness \<Rightarrow> Context \<Rightarrow> octet list \<Rightarrow> Http2Conn" where
  "wrote hs ctx octets =
     (CreateHttp2Conn hs ctx True)\<lparr>sent := sent (CreateHttp2Conn hs ctx True) @ octets\<rparr>"

text \<open>
  What a case returns that ends in \<^verbatim>\<open>return TestConnectionError(ctx, http2Conn, codes)\<close>:
  the helper's results for exactly this connection and this list of codes, the connection
  closed on the way out.
\<close>

definition verified ::
  "Harness \<Rightarrow> Context \<Rightarrow> Http2Conn \<Rightarrow> ErrCode list \<Rightarrow> (Result list \<times> Result option) \<times> Http2Conn" where
  "verified hs ctx c codes =
     (case TestConnectionError hs ctx c codes of (res, c') \<Rightarrow> (res, Close c'))"

text \<open>
  An instance of the parameters, to run the cases on concrete inputs: defaults 0x0 and 0xff, a
  fresh connection on which \<^verbatim>\<open>ReadFrame\<close> will deliver \<open>rs\<close>, and a helper that expects a
  closed connection and has observed nothing.
\<close>

definition sample_harness :: "(error + Frame) list \<Rightarrow> Harness" where
  "sample_harness rs =
     \<lparr>FlagDefault = 0x0, ErrCodeDefault = 0xff,
      CreateHttp2Conn = (\<lambda>ctx sn. \<lparr>sent = [], incoming = rs, closed = False\<rparr>),
      TestConnectionError = (\<lambda>ctx c codes. (([ResultConnectionClose], None), c))\<rparr>"

text \<open>
  The same instance with the modelled helper for its \<^verbatim>\<open>TestConnectionError\<close>, allowing
  \<open>cap\<close> intervening frames. Where the modelled helper has not returned, the instance
  answers with no result at all; no property reads that answer.
\<close>

definition specified_harness :: "(error + Frame) list \<Rightarrow> nat \<Rightarrow> Harness" where
  "specified_harness rs cap =
     \<lparr>FlagDefault = 0x0, ErrCodeDefault = 0xff,
      CreateHttp2Conn = (\<lambda>ctx sn. \<lparr>sent = [], incoming = rs, closed = False\<rparr>),
      TestConnectionError =
        (\<lambda>ctx c codes.
           case TestConnectionError_spec cap 0x0 0xff ctx c codes of
             None \<Rightarrow> (([], None), c)
           | Some out \<Rightarrow> out)\<rparr>"

section \<open>Properties of the read loop of case 1\<close>

lemma read_loop_Nil: "incoming c = [] \<Longrightarrow> read_loop hs ctx c actual = None"
  by (subst read_loop.simps) (simp add: ReadFrame_def)

lemma read_loop_error:
  "incoming c = Inl err # rs \<Longrightarrow>
   read_loop hs ctx c actual =
     Some (if err = EOF \<or> err = OpError ECONNRESET then Some ResultConnectionClose
           else if err = TIMEOUT then (if actual = None then Some ResultTestTimeout else actual)
           else Some (ResultError err),
           c\<lparr>incoming := rs\<rparr>)"
  by (subst read_loop.simps) (auto simp: ReadFrame_def split: error.splits)

lemma read_loop_ack:
  "incoming c = Inr f # rs \<Longrightarrow> ack_settings f \<Longrightarrow>
   read_loop hs ctx c actual = Some (Some (observe hs f), c\<lparr>incoming := rs\<rparr>)"
  by (subst read_loop.simps)
     (auto simp: ReadFrame_def ack_settings_def observe_def split: Frame.splits)

lemma read_loop_frame:
  "incoming c = Inr f # rs \<Longrightarrow> \<not> ack_settings f \<Longrightarrow>
   read_loop hs ctx c actual = read_loop hs ctx (c\<lparr>incoming := rs\<rparr>) (Some (observe hs f))"
  by (subst read_loop.simps)
     (auto simp: ReadFrame_def ack_settings_def observe_def split: Frame.splits)

lemma read_loop_frames:
  "\<forall>f\<in>set fs. \<not> ack_settings f \<Longrightarrow> incoming c = map Inr fs @ rest \<Longrightarrow>
   read_loop hs ctx c actual = read_loop hs ctx (c\<lparr>incoming := rest\<rparr>) (recorded hs fs actual)"
proof (induction fs arbitrary: c actual)
  case Nil
  then have "c\<lparr>incoming := rest\<rparr> = c" by simp
  then show ?case by (simp add: recorded_def)
next
  case (Cons f fs)
  let ?c = "c\<lparr>incoming := map Inr fs @ rest\<rparr>"
  from Cons.prems have step:
    "read_loop hs ctx c actual = read_loop hs ctx ?c (Some (observe hs f))"
    by (intro read_loop_frame) simp_all
  from Cons.prems have "read_loop hs ctx ?c (Some (observe hs f))
      = read_loop hs ctx (?c\<lparr>incoming := rest\<rparr>) (recorded hs fs (Some (observe hs f)))"
    by (intro Cons.IH) simp_all
  with step show ?case by (simp add: recorded_def)
qed

lemma read_loop_trace:
  assumes "\<forall>f\<in>set fs. \<not> ack_settings f" and "incoming c = map Inr fs @ e # rest"
    and "terminal e"
  shows "read_loop hs ctx c actual
         = Some (final hs (recorded hs fs actual) e, c\<lparr>incoming := rest\<rparr>)"
proof -
  let ?c = "c\<lparr>incoming := e # rest\<rparr>"
  have "read_loop hs ctx c actual = read_loop hs ctx ?c (recorded hs fs actual)"
    using assms(1,2) by (rule read_loop_frames)
  also have "\<dots> = Some (final hs (recorded hs fs actual) e, ?c\<lparr>incoming := rest\<rparr>)"
  proof (cases e)
    case (Inl err)
    then show ?thesis by (simp add: read_loop_error [where rs = rest] final_def)
  next
    case (Inr f)
    with assms(3) have "ack_settings f" by (simp add: terminal_def)
    with Inr show ?thesis by (simp add: read_loop_ack [where rs = rest] final_def)
  qed
  finally show ?thesis by simp
qed

lemma first_terminal:
  "\<exists>r\<in>set rs. terminal r \<Longrightarrow>
   \<exists>fs e rest. rs = map Inr fs @ e # rest \<and> (\<forall>f\<in>set fs. \<not> ack_settings f) \<and> terminal e"
proof (induction rs)
  case Nil
  then show ?case by simp
next
  case (Cons r rs)
  show ?case
  proof (cases "terminal r")
    case True
    then have "r # rs = map Inr [] @ r # rs \<and> (\<forall>f\<in>set []. \<not> ack_settings f) \<and> terminal r"
      by simp
    then show ?thesis by blast
  next
    case False
    then obtain f where f: "r = Inr f" "\<not> ack_settings f"
      by (cases r) (auto simp: terminal_def)
    from Cons.prems False have "\<exists>r\<in>set rs. terminal r" by auto
    from Cons.IH [OF this] obtain fs e rest where
      "rs = map Inr fs @ e # rest" "\<forall>f\<in>set fs. \<not> ack_settings f" "terminal e"
      by blast
    with f have "r # rs = map Inr (f # fs) @ e # rest
        \<and> (\<forall>f\<in>set (f # fs). \<not> ack_settings f) \<and> terminal e"
      by simp
    then show ?thesis by blast
  qed
qed

lemma read_loop_Some_trace:
  "read_loop hs ctx c actual = Some (a, c') \<Longrightarrow>
   \<exists>fs e rest. incoming c = map Inr fs @ e # rest \<and> (\<forall>f\<in>set fs. \<not> ack_settings f)
      \<and> terminal e"
proof (induction rs \<equiv> "incoming c" arbitrary: c actual)
  case Nil
  then show ?case by (simp add: read_loop_Nil)
next
  case (Cons r rs)
  show ?case
  proof (cases "terminal r")
    case True
    with Cons.hyps(2) have "incoming c = map Inr [] @ r # rs
        \<and> (\<forall>f\<in>set []. \<not> ack_settings f) \<and> terminal r"
      by simp
    then show ?thesis by blast
  next
    case False
    then obtain f where f: "r = Inr f" "\<not> ack_settings f"
      by (cases r) (auto simp: terminal_def)
    let ?c = "c\<lparr>incoming := rs\<rparr>"
    from f Cons.hyps(2) have
      "read_loop hs ctx c actual = read_loop hs ctx ?c (Some (observe hs f))"
      by (intro read_loop_frame) simp_all
    with Cons.prems have "read_loop hs ctx ?c (Some (observe hs f)) = Some (a, c')" by simp
    from Cons.hyps(1) [OF _ this] obtain fs e rest where
      "incoming ?c = map Inr fs @ e # rest" "\<forall>f\<in>set fs. \<not> ack_settings f" "terminal e"
      by auto
    with f Cons.hyps(2) have "incoming c = map Inr (f # fs) @ e # rest
        \<and> (\<forall>f\<in>set (f # fs). \<not> ack_settings f) \<and> terminal e"
      by simp
    then show ?thesis by blast
  qed
qed

lemma final_is_Some: "\<exists>r. final hs (recorded hs fs None) e = Some r"
  by (cases e) (auto simp: final_def recorded_def)

lemma SendsASettingsFrame_trace:
  assumes "incoming (CreateHttp2Conn hs ctx True) = map Inr fs @ e # rest"
    and "\<forall>f\<in>set fs. \<not> ack_settings f" and "terminal e"
  shows "SendsASettingsFrame hs ctx
         = Some (([ResultFrame FrameSettings FlagSettingsAck (ErrCodeDefault hs)],
                  final hs (recorded hs fs None) e),
                 Close ((WriteSettings (CreateHttp2Conn hs ctx True)
                           [Setting SettingMaxConcurrentStreams 100])\<lparr>incoming := rest\<rparr>))"
proof -
  let ?c = "WriteSettings (CreateHttp2Conn hs ctx True) [Setting SettingMaxConcurrentStreams 100]"
  from assms(1) have "incoming ?c = map Inr fs @ e # rest"
    by (simp add: WriteSettings_def)
  with assms(2,3) have "read_loop hs ctx ?c None
      = Some (final hs (recorded hs fs None) e, ?c\<lparr>incoming := rest\<rparr>)"
    by (intro read_loop_trace) simp_all
  then show ?thesis by (simp add: SendsASettingsFrame_def Let_def)
qed


lemma SendsASettingsFrame_Some_trace:
  assumes "SendsASettingsFrame hs ctx = Some ((expected, actual), c')"
  shows "\<exists>fs e rest. incoming (CreateHttp2Conn hs ctx True) = map Inr fs @ e # rest
           \<and> (\<forall>f\<in>set fs. \<not> ack_settings f) \<and> terminal e"
proof -
  let ?c = "WriteSettings (CreateHttp2Conn hs ctx True) [Setting SettingMaxConcurrentStreams 100]"
  from assms obtain a c'' where "read_loop hs ctx ?c None = Some (a, c'')"
    by (auto simp: SendsASettingsFrame_def Let_def split: option.splits)
  from read_loop_Some_trace [OF this] show ?thesis
    by (simp add: WriteSettings_def)
qed

lemma observe_not_expected:
  "\<not> ack_settings f \<Longrightarrow> codec_frame f \<Longrightarrow>
   observe hs f \<noteq> ResultFrame FrameSettings FlagSettingsAck (ErrCodeDefault hs)"
  by (cases f)
     (auto simp: ack_settings_def codec_frame_def observe_def IsAck_def Has_def
       FrameGoAway_def FrameSettings_def)

lemma final_expected_iff:
  assumes "\<forall>f\<in>set fs. \<not> ack_settings f" and "\<forall>f\<in>set fs. codec_frame f"
    and "terminal e" and "codec_outcome e"
  shows "final hs (recorded hs fs None) e
           = Some (ResultFrame FrameSettings FlagSettingsAck (ErrCodeDefault hs))
         \<longleftrightarrow> (\<exists>h. e = Inr (SettingsFrame h) \<and> Flags h = FlagSettingsAck)"
proof (cases e)
  case (Inl err)
  have "recorded hs fs None
          \<noteq> Some (ResultFrame FrameSettings FlagSettingsAck (ErrCodeDefault hs))"
  proof (cases "fs = []")
    case True
    then show ?thesis by (simp add: recorded_def)
  next
    case False
    then have "last fs \<in> set fs" by simp
    with assms(1,2) have "\<not> ack_settings (last fs)" "codec_frame (last fs)" by blast+
    from observe_not_expected [OF this] False show ?thesis by (simp add: recorded_def)
  qed
  with Inl show ?thesis by (auto simp: final_def)
next
  case (Inr f)
  with assms(3,4) obtain h where "f = SettingsFrame h" "Type h = FrameSettings"
    by (cases f) (auto simp: terminal_def codec_outcome_def ack_settings_def codec_frame_def)
  with Inr show ?thesis by (auto simp: final_def observe_def)
qed

section \<open>The octets the cases write\<close>

text \<open>
  No format string of the file holds the octet 0x25, so \<open>Fprintf\<close> copies each of them as it is;
  and the settings frame case 1 sends through the framer is the frame a hand-made one would be.
\<close>

lemma formats_have_no_verb:
  "0x25 \<notin> set [0x00, 0x00, 0x01, 0x04, 0x01, 0x00, 0x00, 0x00, 0x00, 0x00 :: octet]"
  "0x25 \<notin> set [0x00, 0x00, 0x06, 0x04, 0x00, 0x00, 0x00, 0x00, 0x03 :: octet]"
  "0x25 \<notin> set [0x00, 0x03, 0x00, 0x00, 0x00, 0x64 :: octet]"
  "0x25 \<notin> set [0x00, 0x00, 0x02, 0x04, 0x00, 0x00, 0x00, 0x00, 0x00 :: octet]"
  "0x25 \<notin> set [0x00, 0x00, 0x01 :: octet]"
  "0x25 \<notin> set [0x00, 0x00, 0x06, 0x04, 0x00, 0x00, 0x00, 0x00, 0x00 :: octet]"
  "0x25 \<notin> set [0x00, 0x02, 0x00, 0x00, 0x00, 0x02 :: octet]"
  "0x25 \<notin> set [0x00, 0x04, 0x80, 0x00, 0x00, 0x00 :: octet]"
  "0x25 \<notin> set [0x00, 0x05, 0x00, 0x00, 0x3f, 0xff :: octet]"
  "0x25 \<notin> set [0x00, 0x05, 0x01, 0x00, 0x00, 0x00 :: octet]"
  by simp_all

lemma WriteSettings_octets:
  "sent (WriteSettings c [Setting SettingMaxConcurrentStreams 100])
   = sent c @ [0x00, 0x00, 0x06, 0x04, 0x00, 0x00, 0x00, 0x00, 0x00]
            @ [0x00, 0x03, 0x00, 0x00, 0x00, 0x64]"
  by (simp add: WriteSettings_def put_uint24_def put_uint32_def put_uint16_def
        FrameSettings_def SettingMaxConcurrentStreams_def)

section \<open>Properties of the modelled helper\<close>

text \<open>
  Frames that do not decide the helper's loop, no more of them than the maximum, leave it
  waiting; the timeout then ends it with the timeout variant. Each of the seven cases that
  end in the helper hands it the connection with the octets of the case appended, whose
  incoming side is the one of the fresh connection.
\<close>

lemma drain_loop_timeout:
  "incoming c = Inl TIMEOUT # rs \<Longrightarrow>
   drain_loop cap fd ed ctx c codes n = Some (Some ResultTestTimeout, c\<lparr>incoming := rs\<rparr>)"
  by (subst drain_loop.simps) (simp add: ReadFrame_def)

lemma drain_loop_frame:
  "incoming c = Inr f # rs \<Longrightarrow> \<not> decisive codes f \<Longrightarrow> n < cap \<Longrightarrow>
   drain_loop cap fd ed ctx c codes n = drain_loop cap fd ed ctx (c\<lparr>incoming := rs\<rparr>) codes (Suc n)"
  by (subst drain_loop.simps) (auto simp: ReadFrame_def decisive_def split: Frame.splits)

lemma drain_loop_frames:
  "\<forall>f\<in>set fs. \<not> decisive codes f \<Longrightarrow> n + length fs \<le> cap \<Longrightarrow>
   incoming c = map Inr fs @ rest \<Longrightarrow>
   drain_loop cap fd ed ctx c codes n
     = drain_loop cap fd ed ctx (c\<lparr>incoming := rest\<rparr>) codes (n + length fs)"
proof (induction fs arbitrary: c n)
  case Nil
  then have "c\<lparr>incoming := rest\<rparr> = c" by simp
  then show ?case by simp
next
  case (Cons f fs)
  let ?c = "c\<lparr>incoming := map Inr fs @ rest\<rparr>"
  from Cons.prems have step:
    "drain_loop cap fd ed ctx c codes n = drain_loop cap fd ed ctx ?c codes (Suc n)"
    by (intro drain_loop_frame) auto
  from Cons.prems have "drain_loop cap fd ed ctx ?c codes (Suc n)
      = drain_loop cap fd ed ctx (?c\<lparr>incoming := rest\<rparr>) codes (Suc n + length fs)"
    by (intro Cons.IH) auto
  with step show ?case by simp
qed

lemma TestConnectionError_spec_timeout:
  assumes "incoming c = map Inr fs @ Inl TIMEOUT # rest"
    and "\<forall>f\<in>set fs. \<not> decisive codes f" and "length fs \<le> cap"
  shows "\<exists>expected. TestConnectionError_spec cap fd ed ctx c codes
           = Some ((expected, Some ResultTestTimeout), c\<lparr>incoming := rest\<rparr>)"
proof -
  let ?c = "c\<lparr>incoming := Inl TIMEOUT # rest\<rparr>"
  from assms have "drain_loop cap fd ed ctx c codes 0
      = drain_loop cap fd ed ctx ?c codes (0 + length fs)"
    by (intro drain_loop_frames) simp_all
  also have "\<dots> = Some (Some ResultTestTimeout, ?c\<lparr>incoming := rest\<rparr>)"
    by (rule drain_loop_timeout) simp
  finally show ?thesis by (simp add: TestConnectionError_spec_def)
qed

lemma helper_timeout:
  assumes "helper_as_specified cap hs ctx"
    and "incoming c = map Inr fs @ Inl TIMEOUT # rest"
    and "\<forall>f\<in>set fs. \<not> decisive codes f" and "length fs \<le> cap"
  shows "actual_of (verified hs ctx c codes) = Some ResultTestTimeout"
proof -
  from TestConnectionError_spec_timeout [OF assms(2,3,4)] obtain expected where
    "TestConnectionError_spec cap (FlagDefault hs) (ErrCodeDefault hs) ctx c codes
       = Some ((expected, Some ResultTestTimeout), c\<lparr>incoming := rest\<rparr>)"
    by blast
  with assms(1) have "TestConnectionError hs ctx c codes
      = ((expected, Some ResultTestTimeout), c\<lparr>incoming := rest\<rparr>)"
    by (simp add: helper_as_specified_def)
  then show ?thesis by (simp add: verified_def actual_of_def)
qed

lemma incoming_wrote: "incoming (wrote hs ctx octets) = incoming (CreateHttp2Conn hs ctx True)"
  by (simp add: wrote_def)

lemma helper_cases_unfold:
  "SendsSettingsNotZeroLengthWithAck hs ctx
     = verified hs ctx (wrote hs ctx [0x00, 0x00, 0x01, 0x04, 0x01, 0x00, 0x00, 0x00, 0x00, 0x00])
         [ErrCodeFrameSize]"
  "SendsSettingsStreamIdNot0 hs ctx
     = verified hs ctx
         (wrote hs ctx [0x00, 0x00, 0x06, 0x04, 0x00, 0x00, 0x00, 0x00, 0x03,
                        0x00, 0x03, 0x00, 0x00, 0x00, 0x64])
         [ErrCodeProtocol]"
  "SendsSettingsLengthNotMultipleOf6 hs ctx
     = verified hs ctx
         (wrote hs ctx [0x00, 0x00, 0x02, 0x04, 0x00, 0x00, 0x00, 0x00, 0x00, 0x00, 0x00, 0x01])
         [ErrCodeFrameSize]"
  "EnablePushOtherThan0Or1 hs ctx
     = verified hs ctx
         (wrote hs ctx [0x00, 0x00, 0x06, 0x04, 0x00, 0x00, 0x00, 0x00, 0x00,
                        0x00, 0x02, 0x00, 0x00, 0x00, 0x02])
         [ErrCodeProtocol]"
  "InitialWindowSizeAboveMaximum hs ctx
     = verified hs ctx
         (wrote hs ctx [0x00, 0x00, 0x06, 0x04, 0x00, 0x00, 0x00, 0x00, 0x00,
                        0x00, 0x04, 0x80, 0x00, 0x00, 0x00])
         [ErrCodeFlowControl]"
  "MaxFrameSizeBelowInitial hs ctx
     = verified hs ctx
         (wrote hs ctx [0x00, 0x00, 0x06, 0x04, 0x00, 0x00, 0x00, 0x00, 0x00,
                        0x00, 0x05, 0x00, 0x00, 0x3f, 0xff])
         [ErrCodeProtocol]"
  "MaxFrameSizeAboveMaximum hs ctx
     = verified hs ctx
         (wrote hs ctx [0x00, 0x00, 0x06, 0x04, 0x00, 0x00, 0x00, 0x00, 0x00,
                        0x00, 0x05, 0x01, 0x00, 0x00, 0x00])
         [ErrCodeProtocol]"
  by (simp_all add: SendsSettingsNotZeroLengthWithAck_def SendsSettingsStreamIdNot0_def
        SendsSettingsLengthNotMultipleOf6_def EnablePushOtherThan0Or1_def
        InitialWindowSizeAboveMaximum_def MaxFrameSizeBelowInitial_def
        MaxFrameSizeAboveMaximum_def verified_def wrote_def Fprintf_def Let_def)

lemma specified_harness_as_specified: "helper_as_specified cap (specified_harness rs cap) ctx"
  by (simp add: helper_as_specified_def specified_harness_def)

section \<open>The claims\<close>

subsection \<open>C1: what a timeout leaves in \<open>actual\<close>\<close>

text \<open>
  C1 says that for every case of the SETTINGS group the actual result is the timeout variant
  when the deadline elapses in the read loop of the case; in particular, that in the case
  "Sends a SETTINGS frame" it is so whenever \<^verbatim>\<open>ReadFrame\<close> returns \<^verbatim>\<open>TIMEOUT\<close>, whatever
  frames came before. The loop of that case assigns the timeout variant only under
  \<^verbatim>\<open>if actual == nil\<close> (line 36), so this holds when no frame has been received; after a
  frame, \<^verbatim>\<open>actual\<close> keeps that frame's observation.

  C1, as the code has it. Let \<^verbatim>\<open>ReadFrame\<close> deliver the frames \<open>fs\<close> and then return
  \<^verbatim>\<open>TIMEOUT\<close>.
  \<^item> In "Sends a SETTINGS frame", when no frame of \<open>fs\<close> is a settings frame with ACK, the
    case returns; its actual result is the timeout variant if \<open>fs\<close> is empty, and the
    observation of the last frame of \<open>fs\<close> otherwise.
  \<^item> In each of the seven other cases of the group (three in 6.5, four in 6.5.2), which
    return what the verification helper returns, the actual result is the timeout variant,
    when the helper is the one the spec describes, no frame of \<open>fs\<close> is decisive for the
    codes of the case, and \<open>fs\<close> does not exceed the helper's maximum of intervening
    frames.
\<close>

theorem timeout_in_settings_group:
  assumes "incoming (CreateHttp2Conn hs ctx True) = map Inr fs @ Inl TIMEOUT # rest"
  shows "((\<forall>f\<in>set fs. \<not> ack_settings f) \<longrightarrow>
            actual_result (SendsASettingsFrame hs ctx)
            = Some (if fs = [] then Some ResultTestTimeout else Some (observe hs (last fs))))
         \<and> (helper_as_specified cap hs ctx \<and> length fs \<le> cap
              \<and> (\<forall>f\<in>set fs. \<not> decisive [ErrCodeFrameSize] f) \<longrightarrow>
            actual_of (SendsSettingsNotZeroLengthWithAck hs ctx) = Some ResultTestTimeout
            \<and> actual_of (SendsSettingsLengthNotMultipleOf6 hs ctx) = Some ResultTestTimeout)
         \<and> (helper_as_specified cap hs ctx \<and> length fs \<le> cap
              \<and> (\<forall>f\<in>set fs. \<not> decisive [ErrCodeProtocol] f) \<longrightarrow>
            actual_of (SendsSettingsStreamIdNot0 hs ctx) = Some ResultTestTimeout
            \<and> actual_of (EnablePushOtherThan0Or1 hs ctx) = Some ResultTestTimeout
            \<and> actual_of (MaxFrameSizeBelowInitial hs ctx) = Some ResultTestTimeout
            \<and> actual_of (MaxFrameSizeAboveMaximum hs ctx) = Some ResultTestTimeout)
         \<and> (helper_as_specified cap hs ctx \<and> length fs \<le> cap
              \<and> (\<forall>f\<in>set fs. \<not> decisive [ErrCodeFlowControl] f) \<longrightarrow>
            actual_of (InitialWindowSizeAboveMaximum hs ctx) = Some ResultTestTimeout)"
proof -
  have case1: "actual_result (SendsASettingsFrame hs ctx)
      = Some (if fs = [] then Some ResultTestTimeout else Some (observe hs (last fs)))"
    if "\<forall>f\<in>set fs. \<not> ack_settings f"
  proof -
    have "terminal (Inl TIMEOUT)" by (simp add: terminal_def)
    from SendsASettingsFrame_trace [OF assms that this] show ?thesis
      by (simp add: actual_result_def final_def recorded_def)
  qed
  have helper: "actual_of (verified hs ctx (wrote hs ctx octets) codes) = Some ResultTestTimeout"
    if "helper_as_specified cap hs ctx \<and> length fs \<le> cap \<and> (\<forall>f\<in>set fs. \<not> decisive codes f)"
    for octets codes
    using that assms by (intro helper_timeout [where fs = fs and rest = rest and cap = cap])
      (simp_all add: incoming_wrote)
  from case1 helper show ?thesis by (simp add: helper_cases_unfold)
qed

theorem timeout_in_settings_group_witness:
  "actual_result
     (SendsASettingsFrame
        (specified_harness [Inr (OtherFrame (FrameHeader 0x6 0x0 8 0)), Inl TIMEOUT] 3)
        \<lparr>Timeout = 2\<rparr>)
   = Some (Some (ResultFrame 0x6 0x0 0xff))
   \<and> actual_of (SendsSettingsNotZeroLengthWithAck
        (specified_harness [Inr (OtherFrame (FrameHeader 0x6 0x0 8 0)), Inl TIMEOUT] 3)
        \<lparr>Timeout = 2\<rparr>)
     = Some ResultTestTimeout
   \<and> actual_of (SendsSettingsStreamIdNot0
        (specified_harness [Inr (OtherFrame (FrameHeader 0x6 0x0 8 0)), Inl TIMEOUT] 3)
        \<lparr>Timeout = 2\<rparr>)
     = Some ResultTestTimeout
   \<and> actual_of (SendsSettingsLengthNotMultipleOf6
        (specified_harness [Inr (OtherFrame (FrameHeader 0x6 0x0 8 0)), Inl TIMEOUT] 3)
        \<lparr>Timeout = 2\<rparr>)
     = Some ResultTestTimeout
   \<and> actual_of (EnablePushOtherThan0Or1
        (specified_harness [Inr (OtherFrame (FrameHeader 0x6 0x0 8 0)), Inl TIMEOUT] 3)
        \<lparr>Timeout = 2\<rparr>)
     = Some ResultTestTimeout
   \<and> actual_of (InitialWindowSizeAboveMaximum
        (specified_harness [Inr (OtherFrame (FrameHeader 0x6 0x0 8 0)), Inl TIMEOUT] 3)
        \<lparr>Timeout = 2\<rparr>)
     = Some ResultTestTimeout
   \<and> actual_of (MaxFrameSizeBelowInitial
        (specified_harness [Inr (OtherFrame (FrameHeader 0x6 0x0 8 0)), Inl TIMEOUT] 3)
        \<lparr>Timeout = 2\<rparr>)
     = Some ResultTestTimeout
   \<and> actual_of (MaxFrameSizeAboveMaximum
        (specified_harness [Inr (OtherFrame (FrameHeader 0x6 0x0 8 0)), Inl TIMEOUT] 3)
        \<lparr>Timeout = 2\<rparr>)
     = Some ResultTestTimeout"
proof -
  let ?hs = "specified_harness [Inr (OtherFrame (FrameHeader 0x6 0x0 8 0)), Inl TIMEOUT] 3"
  have spec: "helper_as_specified 3 ?hs \<lparr>Timeout = 2\<rparr>"
    by (rule specified_harness_as_specified)
  have trace: "incoming (CreateHttp2Conn ?hs \<lparr>Timeout = 2\<rparr> True)
      = map Inr [OtherFrame (FrameHeader 0x6 0x0 8 0)] @ Inl TIMEOUT # []"
    by (simp add: specified_harness_def)
  have obs: "observe ?hs (OtherFrame (FrameHeader 0x6 0x0 8 0)) = ResultFrame 0x6 0x0 0xff"
    by (simp add: observe_def specified_harness_def)
  from timeout_in_settings_group [OF trace, where cap = 3] spec obs show ?thesis
    by (simp add: ack_settings_def decisive_def)
qed

text \<open>
  The input that refutes C1 as stated: a PING frame, then the timeout. The case returns the
  frame observation of the PING frame, not the timeout variant.
\<close>

theorem timeout_after_frame_counterexample:
  "actual_result
     (SendsASettingsFrame
        (sample_harness [Inr (OtherFrame (FrameHeader 0x6 0x0 8 0)), Inl TIMEOUT])
        \<lparr>Timeout = 2\<rparr>)
   = Some (Some (ResultFrame 0x6 0x0 0xff))
   \<and> actual_result
     (SendsASettingsFrame
        (sample_harness [Inr (OtherFrame (FrameHeader 0x6 0x0 8 0)), Inl TIMEOUT])
        \<lparr>Timeout = 2\<rparr>)
   \<noteq> Some (Some ResultTestTimeout)"
  using SendsASettingsFrame_trace
      [of "sample_harness [Inr (OtherFrame (FrameHeader 0x6 0x0 8 0)), Inl TIMEOUT]"
          "\<lparr>Timeout = 2\<rparr>" "[OtherFrame (FrameHeader 0x6 0x0 8 0)]" "Inl TIMEOUT" "[]"]
  by (simp add: sample_harness_def ack_settings_def terminal_def actual_result_def final_def
        recorded_def observe_def)

subsection \<open>C2: the expected result of case 1, and when the case passes\<close>

text \<open>
  C2 says that "Sends a SETTINGS frame" expects exactly one result, the frame observation
  (SETTINGS, ACK flag, default error code), and that its loop ends with \<^verbatim>\<open>actual\<close> equal to
  it exactly when a SETTINGS frame with the ACK flag is decoded. The loop breaks on
  \<^verbatim>\<open>f.IsAck()\<close>, which tests the ACK bit, and records the whole flags octet
  (\<^verbatim>\<open>f.Header().Flags\<close>): a settings frame with ACK and a further flag bit ends the loop with
  an observation that differs from the expected one.

  C2, as the code has it: let \<^verbatim>\<open>ReadFrame\<close> deliver the frames \<open>fs\<close>, none of them a
  settings frame with ACK, and then \<open>e\<close>, an error or a settings frame with ACK (the codec
  giving a \<^verbatim>\<open>*SettingsFrame\<close> exactly for type SETTINGS). Then the case returns; its
  expected list is exactly that one frame observation; and its actual result equals it if
  and only if \<open>e\<close> is a settings frame whose flags octet is exactly the ACK flag. So a
  connection close, a timeout or a transport error leaves an actual result outside the
  expected list.
\<close>

theorem pass_iff_flags_exactly_ack:
  assumes "incoming (CreateHttp2Conn hs ctx True) = map Inr fs @ e # rest"
    and "\<forall>f\<in>set fs. \<not> ack_settings f" and "terminal e"
    and "\<forall>f\<in>set fs. codec_frame f" and "codec_outcome e"
  shows "expected_results (SendsASettingsFrame hs ctx)
           = Some [ResultFrame FrameSettings FlagSettingsAck (ErrCodeDefault hs)]
         \<and> (\<exists>r. actual_result (SendsASettingsFrame hs ctx) = Some (Some r))
         \<and> (actual_result (SendsASettingsFrame hs ctx)
              = Some (Some (ResultFrame FrameSettings FlagSettingsAck (ErrCodeDefault hs)))
            \<longleftrightarrow> (\<exists>h. e = Inr (SettingsFrame h) \<and> Flags h = FlagSettingsAck))"
proof -
  note run = SendsASettingsFrame_trace [OF assms(1,2,3)]
  have "expected_results (SendsASettingsFrame hs ctx)
          = Some [ResultFrame FrameSettings FlagSettingsAck (ErrCodeDefault hs)]"
    by (simp add: run expected_results_def)
  moreover have act: "actual_result (SendsASettingsFrame hs ctx)
      = Some (final hs (recorded hs fs None) e)"
    by (simp add: run actual_result_def)
  moreover from final_is_Some obtain r where "final hs (recorded hs fs None) e = Some r"
    by blast
  moreover note final_expected_iff [OF assms(2,4,3,5), of hs]
  ultimately show ?thesis by simp
qed

theorem pass_iff_flags_exactly_ack_witness:
  "expected_results
     (SendsASettingsFrame
        (sample_harness [Inr (OtherFrame (FrameHeader 0x8 0x0 4 0)),
                         Inr (SettingsFrame (FrameHeader 0x4 0x1 0 0))])
        \<lparr>Timeout = 2\<rparr>)
   = Some [ResultFrame FrameSettings FlagSettingsAck 0xff]
   \<and> actual_result
     (SendsASettingsFrame
        (sample_harness [Inr (OtherFrame (FrameHeader 0x8 0x0 4 0)),
                         Inr (SettingsFrame (FrameHeader 0x4 0x1 0 0))])
        \<lparr>Timeout = 2\<rparr>)
   = Some (Some (ResultFrame FrameSettings FlagSettingsAck 0xff))
   \<and> actual_result
     (SendsASettingsFrame
        (sample_harness [Inr (OtherFrame (FrameHeader 0x8 0x0 4 0)), Inl EOF])
        \<lparr>Timeout = 2\<rparr>)
   \<noteq> Some (Some (ResultFrame FrameSettings FlagSettingsAck 0xff))"
  using
    pass_iff_flags_exactly_ack
      [of "sample_harness [Inr (OtherFrame (FrameHeader 0x8 0x0 4 0)),
                           Inr (SettingsFrame (FrameHeader 0x4 0x1 0 0))]"
          "\<lparr>Timeout = 2\<rparr>" "[OtherFrame (FrameHeader 0x8 0x0 4 0)]"
          "Inr (SettingsFrame (FrameHeader 0x4 0x1 0 0))" "[]"]
    pass_iff_flags_exactly_ack
      [of "sample_harness [Inr (OtherFrame (FrameHeader 0x8 0x0 4 0)), Inl EOF]"
          "\<lparr>Timeout = 2\<rparr>" "[OtherFrame (FrameHeader 0x8 0x0 4 0)]" "Inl EOF" "[]"]
  by (simp add: sample_harness_def ack_settings_def terminal_def codec_frame_def
        codec_outcome_def IsAck_def Has_def FlagSettingsAck_def FrameSettings_def)

text \<open>
  The input that refutes C2 as stated: a SETTINGS frame with flags 0x03. \<^verbatim>\<open>IsAck()\<close> holds
  of it and the loop ends, with a frame observation that is not in the expected list.
\<close>

theorem ack_with_other_flags_counterexample:
  "IsAck (FrameHeader 0x4 0x3 0 0)
   \<and> expected_results
       (SendsASettingsFrame (sample_harness [Inr (SettingsFrame (FrameHeader 0x4 0x3 0 0))])
          \<lparr>Timeout = 2\<rparr>)
     = Some [ResultFrame FrameSettings FlagSettingsAck 0xff]
   \<and> actual_result
       (SendsASettingsFrame (sample_harness [Inr (SettingsFrame (FrameHeader 0x4 0x3 0 0))])
          \<lparr>Timeout = 2\<rparr>)
     = Some (Some (ResultFrame 0x4 0x3 0xff))
   \<and> ResultFrame 0x4 0x3 0xff \<notin> set [ResultFrame FrameSettings FlagSettingsAck 0xff]"
  using SendsASettingsFrame_trace
      [of "sample_harness [Inr (SettingsFrame (FrameHeader 0x4 0x3 0 0))]"
          "\<lparr>Timeout = 2\<rparr>" "[]" "Inr (SettingsFrame (FrameHeader 0x4 0x3 0 0))" "[]"]
  by (simp add: sample_harness_def ack_settings_def terminal_def actual_result_def
        expected_results_def final_def recorded_def observe_def IsAck_def Has_def
        FlagSettingsAck_def FrameSettings_def)

subsection \<open>C3: the octets and codes of "not a zero-length with ACK flag"\<close>

text \<open>
  C3: the case "Sends a SETTINGS frame that is not a zero-length with ACK flag" writes to the
  connection exactly the nine header octets 00 00 01 04 01 00 00 00 00 (length 1, type
  SETTINGS, flags ACK, stream 0) and one payload octet, and hands the helper exactly the list
  of codes [FRAME\_SIZE\_ERROR].
\<close>

theorem not_zero_length_with_ack_octets:
  "SendsSettingsNotZeroLengthWithAck hs ctx
     = verified hs ctx
         (wrote hs ctx ([0x00, 0x00, 0x01, 0x04, 0x01, 0x00, 0x00, 0x00, 0x00] @ [0x00]))
         [ErrCodeFrameSize]
   \<and> readFrameHeader [0x00, 0x00, 0x01, 0x04, 0x01, 0x00, 0x00, 0x00, 0x00]
       = Some (FrameHeader FrameSettings FlagSettingsAck 1 0)
   \<and> length [0x00 :: octet] = 1"
  by (simp add: SendsSettingsNotZeroLengthWithAck_def verified_def wrote_def Fprintf_def Let_def
        readFrameHeader_def Uint32_def FrameSettings_def FlagSettingsAck_def)

subsection \<open>C4: the octets and codes of "stream identifier that is not 0x0"\<close>

text \<open>
  C4: the case "Sends a SETTINGS frame with the stream identifier that is not 0x0" writes
  exactly the header octets 00 00 06 04 00 00 00 00 03 (stream 3) and the six-octet body
  00 03 00 00 00 64, and hands the helper exactly the list of codes [PROTOCOL\_ERROR].
\<close>

theorem stream_id_not_0_octets:
  "SendsSettingsStreamIdNot0 hs ctx
     = verified hs ctx
         (wrote hs ctx ([0x00, 0x00, 0x06, 0x04, 0x00, 0x00, 0x00, 0x00, 0x03]
                        @ [0x00, 0x03, 0x00, 0x00, 0x00, 0x64]))
         [ErrCodeProtocol]
   \<and> readFrameHeader [0x00, 0x00, 0x06, 0x04, 0x00, 0x00, 0x00, 0x00, 0x03]
       = Some (FrameHeader FrameSettings 0x00 6 3)
   \<and> length [0x00, 0x03, 0x00, 0x00, 0x00, 0x64 :: octet] = 6"
  by (simp add: SendsSettingsStreamIdNot0_def verified_def wrote_def Fprintf_def Let_def
        readFrameHeader_def Uint32_def FrameSettings_def FlagSettingsAck_def)

subsection \<open>C5: the declared length of "a length other than a multiple of 6 octets"\<close>

text \<open>
  C5 says that the case "Sends a SETTINGS frame with a length other than a multiple of 6
  octets" declares the length 3 in its header, matching the three payload octets it writes.
  The header the case writes is 00 00 02 04 00 00 00 00 00: it declares the length 2, and
  three payload octets follow. What the code does: type SETTINGS, stream 0, declared length
  2, three payload octets, and the list of codes [FRAME\_SIZE\_ERROR].
\<close>

theorem length_not_multiple_of_6_declares_2:
  "SendsSettingsLengthNotMultipleOf6 hs ctx
     = verified hs ctx
         (wrote hs ctx ([0x00, 0x00, 0x02, 0x04, 0x00, 0x00, 0x00, 0x00, 0x00]
                        @ [0x00, 0x00, 0x01]))
         [ErrCodeFrameSize]
   \<and> readFrameHeader [0x00, 0x00, 0x02, 0x04, 0x00, 0x00, 0x00, 0x00, 0x00]
       = Some (FrameHeader FrameSettings 0x00 2 0)
   \<and> length [0x00, 0x00, 0x01 :: octet] = 3"
  by (simp add: SendsSettingsLengthNotMultipleOf6_def verified_def wrote_def Fprintf_def Let_def
        readFrameHeader_def Uint32_def FrameSettings_def FlagSettingsAck_def)

subsection \<open>C6: the octets and codes of the SETTINGS\_ENABLE\_PUSH case\<close>

text \<open>
  C6: the case "SETTINGS\_ENABLE\_PUSH (0x2): Sends the value other than 0 or 1" writes exactly
  the header octets 00 00 06 04 00 00 00 00 00 and the pair 00 02 00 00 00 02 (identifier
  0x0002, value 2), and hands the helper exactly the list of codes [PROTOCOL\_ERROR].
\<close>

theorem enable_push_octets:
  "EnablePushOtherThan0Or1 hs ctx
     = verified hs ctx
         (wrote hs ctx ([0x00, 0x00, 0x06, 0x04, 0x00, 0x00, 0x00, 0x00, 0x00]
                        @ [0x00, 0x02, 0x00, 0x00, 0x00, 0x02]))
         [ErrCodeProtocol]
   \<and> parseSetting [0x00, 0x02, 0x00, 0x00, 0x00, 0x02] = Some (Setting 0x0002 2)"
  by (simp add: EnablePushOtherThan0Or1_def verified_def wrote_def Fprintf_def Let_def
        parseSetting_def Uint16_def Uint32_def)

subsection \<open>C7: the octets and codes of the three parameter-limit cases\<close>

text \<open>
  C7: each of the other three cases of 6.5.2 writes the header octets
  00 00 06 04 00 00 00 00 00 and exactly one six-octet pair, and hands the helper one code:
  FLOW\_CONTROL\_ERROR for identifier 0x0004 with value 0x80000000, PROTOCOL\_ERROR for
  identifier 0x0005 with value 0x00003fff, and PROTOCOL\_ERROR for identifier 0x0005 with
  value 0x01000000.
\<close>

theorem parameter_limit_octets:
  "InitialWindowSizeAboveMaximum hs ctx
     = verified hs ctx
         (wrote hs ctx ([0x00, 0x00, 0x06, 0x04, 0x00, 0x00, 0x00, 0x00, 0x00]
                        @ [0x00, 0x04, 0x80, 0x00, 0x00, 0x00]))
         [ErrCodeFlowControl]
   \<and> parseSetting [0x00, 0x04, 0x80, 0x00, 0x00, 0x00] = Some (Setting 0x0004 0x80000000)
   \<and> MaxFrameSizeBelowInitial hs ctx
     = verified hs ctx
         (wrote hs ctx ([0x00, 0x00, 0x06, 0x04, 0x00, 0x00, 0x00, 0x00, 0x00]
                        @ [0x00, 0x05, 0x00, 0x00, 0x3f, 0xff]))
         [ErrCodeProtocol]
   \<and> parseSetting [0x00, 0x05, 0x00, 0x00, 0x3f, 0xff] = Some (Setting 0x0005 0x00003fff)
   \<and> MaxFrameSizeAboveMaximum hs ctx
     = verified hs ctx
         (wrote hs ctx ([0x00, 0x00, 0x06, 0x04, 0x00, 0x00, 0x00, 0x00, 0x00]
                        @ [0x00, 0x05, 0x01, 0x00, 0x00, 0x00]))
         [ErrCodeProtocol]
   \<and> parseSetting [0x00, 0x05, 0x01, 0x00, 0x00, 0x00] = Some (Setting 0x0005 0x01000000)"
  by (simp add: InitialWindowSizeAboveMaximum_def MaxFrameSizeBelowInitial_def
        MaxFrameSizeAboveMaximum_def verified_def wrote_def Fprintf_def Let_def
        parseSetting_def Uint16_def Uint32_def)

subsection \<open>C8: how case 1 classifies an error of \<open>ReadFrame\<close>\<close>




subsection \<open>C9: case 1 returns one actual result on every exit of its loop\<close>

text \<open>
  C9: whenever the behaviour function of "Sends a SETTINGS frame" returns, \<^verbatim>\<open>actual\<close> is
  not \<^verbatim>\<open>nil\<close>: it is one result, of one of the four variants. And it does return as soon
  as \<^verbatim>\<open>ReadFrame\<close> delivers an outcome that ends the loop (an error, or a settings frame
  with ACK).
\<close>

theorem one_actual_on_every_exit:
  "(SendsASettingsFrame hs ctx = Some ((expected, actual), c') \<longrightarrow>
      (\<exists>r. actual = Some r
         \<and> ((\<exists>t fl code. r = ResultFrame t fl code) \<or> r = ResultConnectionClose
             \<or> r = ResultTestTimeout \<or> (\<exists>err. r = ResultError err))))
   \<and> ((\<exists>r\<in>set (incoming (CreateHttp2Conn hs ctx True)). terminal r) \<longrightarrow>
      (\<exists>r. actual_result (SendsASettingsFrame hs ctx) = Some (Some r)))"
proof (intro conjI impI)
  assume ret: "SendsASettingsFrame hs ctx = Some ((expected, actual), c')"
  from SendsASettingsFrame_Some_trace [OF ret] obtain fs e rest where
    "incoming (CreateHttp2Conn hs ctx True) = map Inr fs @ e # rest"
    "\<forall>f\<in>set fs. \<not> ack_settings f" "terminal e"
    by blast
  from SendsASettingsFrame_trace [OF this] ret
  have "actual = final hs (recorded hs fs None) e" by simp
  with final_is_Some obtain r where r: "actual = Some r" by metis
  have "(\<exists>t fl code. r = ResultFrame t fl code) \<or> r = ResultConnectionClose
      \<or> r = ResultTestTimeout \<or> (\<exists>err. r = ResultError err)"
    by (cases r) simp_all
  with r show "\<exists>r. actual = Some r
      \<and> ((\<exists>t fl code. r = ResultFrame t fl code) \<or> r = ResultConnectionClose
          \<or> r = ResultTestTimeout \<or> (\<exists>err. r = ResultError err))"
    by blast
next
  assume "\<exists>r\<in>set (incoming (CreateHttp2Conn hs ctx True)). terminal r"
  from first_terminal [OF this] obtain fs e rest where
    "incoming (CreateHttp2Conn hs ctx True) = map Inr fs @ e # rest"
    "\<forall>f\<in>set fs. \<not> ack_settings f" "terminal e"
    by blast
  from SendsASettingsFrame_trace [OF this]
  have "actual_result (SendsASettingsFrame hs ctx) = Some (final hs (recorded hs fs None) e)"
    by (simp add: actual_result_def)
  with final_is_Some show "\<exists>r. actual_result (SendsASettingsFrame hs ctx) = Some (Some r)"
    by metis
qed

theorem one_actual_on_every_exit_witness:
  "SendsASettingsFrame
     (sample_harness [Inr (OtherFrame (FrameHeader 0x6 0x0 8 0)), Inl TIMEOUT]) \<lparr>Timeout = 2\<rparr>
   = Some (([ResultFrame FrameSettings FlagSettingsAck 0xff], Some (ResultFrame 0x6 0x0 0xff)),
           \<lparr>sent = [0x00, 0x00, 0x06, 0x04, 0x00, 0x00, 0x00, 0x00, 0x00,
                    0x00, 0x03, 0x00, 0x00, 0x00, 0x64],
            incoming = [], closed = True\<rparr>)
   \<and> (\<exists>r. Some (ResultFrame 0x6 0x0 0xff) = Some r
          \<and> ((\<exists>t fl code. r = ResultFrame t fl code) \<or> r = ResultConnectionClose
              \<or> r = ResultTestTimeout \<or> (\<exists>err. r = ResultError err)))
   \<and> (\<exists>r. actual_result
            (SendsASettingsFrame
               (sample_harness [Inr (OtherFrame (FrameHeader 0x6 0x0 8 0)), Inl TIMEOUT])
               \<lparr>Timeout = 2\<rparr>)
          = Some (Some r))"
proof -
  let ?hs = "sample_harness [Inr (OtherFrame (FrameHeader 0x6 0x0 8 0)), Inl TIMEOUT]"
  let ?out = "(([ResultFrame FrameSettings FlagSettingsAck 0xff], Some (ResultFrame 0x6 0x0 0xff)),
           \<lparr>sent = [0x00, 0x00, 0x06, 0x04, 0x00, 0x00, 0x00, 0x00, 0x00,
                    0x00, 0x03, 0x00, 0x00, 0x00, 0x64 :: octet],
            incoming = [], closed = True\<rparr>)"
  have run: "SendsASettingsFrame ?hs \<lparr>Timeout = 2\<rparr> = Some ?out"
    using SendsASettingsFrame_trace
      [of ?hs "\<lparr>Timeout = 2\<rparr>" "[OtherFrame (FrameHeader 0x6 0x0 8 0)]" "Inl TIMEOUT" "[]"]
      WriteSettings_octets [of "CreateHttp2Conn ?hs \<lparr>Timeout = 2\<rparr> True"]
    by (simp add: sample_harness_def ack_settings_def terminal_def final_def recorded_def
          observe_def Close_def WriteSettings_def)
  have ends: "\<exists>r\<in>set (incoming (CreateHttp2Conn ?hs \<lparr>Timeout = 2\<rparr> True)). terminal r"
    by (simp add: sample_harness_def terminal_def)
  from one_actual_on_every_exit
      [of ?hs "\<lparr>Timeout = 2\<rparr>" "fst (fst ?out)" "snd (fst ?out)" "snd ?out"] run ends
  show ?thesis by simp
qed

subsection \<open>C10: only a settings frame with ACK ends the loop\<close>

text \<open>
  C10: in "Sends a SETTINGS frame", a received frame that is not a settings frame with ACK
  only replaces the recorded \<^verbatim>\<open>actual\<close>, and the loop goes on to the next \<^verbatim>\<open>ReadFrame\<close>;
  this holds for a list \<open>fs\<close> of such frames of any length, so their number is not bounded.
  After them the loop is where it would be had they not come, but for \<^verbatim>\<open>actual\<close>; it has
  not returned when nothing follows; a settings frame with ACK then ends it. That \<^verbatim>\<open>actual\<close>
  has been replaced shows when the timeout follows: the loop returns the observation of the
  last frame of \<open>fs\<close>, and without a frame what \<^verbatim>\<open>actual\<close> was, or the timeout variant if
  it was \<^verbatim>\<open>nil\<close>.
\<close>

theorem only_ack_settings_ends_the_loop:
  assumes "\<forall>f\<in>set fs. \<not> ack_settings f" and "incoming c = map Inr fs @ rest"
  shows "read_loop hs ctx c actual
           = read_loop hs ctx (c\<lparr>incoming := rest\<rparr>) (recorded hs fs actual)
         \<and> (rest = [] \<longrightarrow> read_loop hs ctx c actual = None)
         \<and> (rest = Inr f # rs \<and> ack_settings f \<longrightarrow>
              read_loop hs ctx c actual = Some (Some (observe hs f), c\<lparr>incoming := rs\<rparr>))
         \<and> (rest = Inl TIMEOUT # rs \<and> fs \<noteq> [] \<longrightarrow>
              read_loop hs ctx c actual
              = Some (Some (observe hs (last fs)), c\<lparr>incoming := rs\<rparr>))
         \<and> (rest = Inl TIMEOUT # rs \<and> fs = [] \<longrightarrow>
              read_loop hs ctx c actual
              = Some (if actual = None then Some ResultTestTimeout else actual,
                      c\<lparr>incoming := rs\<rparr>))"
proof -
  have skip: "read_loop hs ctx c actual
      = read_loop hs ctx (c\<lparr>incoming := rest\<rparr>) (recorded hs fs actual)"
    using assms by (rule read_loop_frames)
  moreover have "read_loop hs ctx c actual = None" if "rest = []"
    using skip that by (simp add: read_loop_Nil)
  moreover have "read_loop hs ctx c actual = Some (Some (observe hs f), c\<lparr>incoming := rs\<rparr>)"
    if "rest = Inr f # rs \<and> ack_settings f"
  proof -
    from that have "read_loop hs ctx (c\<lparr>incoming := rest\<rparr>) (recorded hs fs actual)
        = Some (Some (observe hs f), c\<lparr>incoming := rest\<rparr>\<lparr>incoming := rs\<rparr>)"
      by (intro read_loop_ack) simp_all
    with skip show ?thesis by simp
  qed
  moreover have timeout: "read_loop hs ctx c actual
      = Some (if recorded hs fs actual = None then Some ResultTestTimeout
              else recorded hs fs actual, c\<lparr>incoming := rs\<rparr>)"
    if "rest = Inl TIMEOUT # rs"
    using skip that by (simp add: read_loop_error [where rs = rs])
  ultimately show ?thesis by (auto simp: recorded_def)
qed

theorem only_ack_settings_ends_the_loop_witness:
  "read_loop (sample_harness []) \<lparr>Timeout = 2\<rparr>
     \<lparr>sent = [],
      incoming = map Inr [SettingsFrame (FrameHeader 0x4 0x0 6 0),
                          OtherFrame (FrameHeader 0x6 0x0 8 0),
                          OtherFrame (FrameHeader 0x8 0x0 4 0),
                          OtherFrame (FrameHeader 0x6 0x1 8 0)], closed = False\<rparr> None
   = None
   \<and> read_loop (sample_harness []) \<lparr>Timeout = 2\<rparr>
     \<lparr>sent = [],
      incoming = map Inr [OtherFrame (FrameHeader 0x6 0x0 8 0)]
                 @ [Inr (SettingsFrame (FrameHeader 0x4 0x1 0 0))], closed = False\<rparr> None
   = Some (Some (ResultFrame 0x4 0x1 0xff), \<lparr>sent = [], incoming = [], closed = False\<rparr>)
   \<and> read_loop (sample_harness []) \<lparr>Timeout = 2\<rparr>
     \<lparr>sent = [],
      incoming = map Inr [OtherFrame (FrameHeader 0x6 0x0 8 0),
                          SettingsFrame (FrameHeader 0x4 0x0 6 0)]
                 @ [Inl TIMEOUT], closed = False\<rparr> None
   = Some (Some (ResultFrame 0x4 0x0 0xff), \<lparr>sent = [], incoming = [], closed = False\<rparr>)"
  using
    only_ack_settings_ends_the_loop
      [where fs = "[SettingsFrame (FrameHeader 0x4 0x0 6 0), OtherFrame (FrameHeader 0x6 0x0 8 0),
            OtherFrame (FrameHeader 0x8 0x0 4 0), OtherFrame (FrameHeader 0x6 0x1 8 0)]"
         and c = "\<lparr>sent = [],
            incoming = map Inr [SettingsFrame (FrameHeader 0x4 0x0 6 0),
                                OtherFrame (FrameHeader 0x6 0x0 8 0),
                                OtherFrame (FrameHeader 0x8 0x0 4 0),
                                OtherFrame (FrameHeader 0x6 0x1 8 0)], closed = False\<rparr>"
         and rest = "[]" and hs = "sample_harness []" and ctx = "\<lparr>Timeout = 2\<rparr>"
         and actual = None, THEN conjunct2, THEN conjunct1]
    only_ack_settings_ends_the_loop
      [where fs = "[OtherFrame (FrameHeader 0x6 0x0 8 0)]"
         and c = "\<lparr>sent = [],
            incoming = map Inr [OtherFrame (FrameHeader 0x6 0x0 8 0)]
                       @ [Inr (SettingsFrame (FrameHeader 0x4 0x1 0 0))], closed = False\<rparr>"
         and rest = "[Inr (SettingsFrame (FrameHeader 0x4 0x1 0 0))]"
         and f = "SettingsFrame (FrameHeader 0x4 0x1 0 0)" and rs = "[]"
         and hs = "sample_harness []" and ctx = "\<lparr>Timeout = 2\<rparr>" and actual = None,
         THEN conjunct2, THEN conjunct2, THEN conjunct1]
    only_ack_settings_ends_the_loop
      [where fs = "[OtherFrame (FrameHeader 0x6 0x0 8 0), SettingsFrame (FrameHeader 0x4 0x0 6 0)]"
         and c = "\<lparr>sent = [],
            incoming = map Inr [OtherFrame (FrameHeader 0x6 0x0 8 0),
                                SettingsFrame (FrameHeader 0x4 0x0 6 0)]
                       @ [Inl TIMEOUT], closed = False\<rparr>"
         and rest = "[Inl TIMEOUT]" and rs = "[]"
         and hs = "sample_harness []" and ctx = "\<lparr>Timeout = 2\<rparr>" and actual = None,
         THEN conjunct2, THEN conjunct2, THEN conjunct2, THEN conjunct1]
  by (simp add: sample_harness_def ack_settings_def IsAck_def Has_def FlagSettingsAck_def
        observe_def)

end
